theory Spec2Isabelle
  imports Main
begin

section \<open>Tool results\<close>

text \<open>
  A tool handler of \<^verbatim>\<open>src/index.ts\<close> answers with an object
  \<^verbatim>\<open>{ isError?: true, content: [{ type: "text", text }] }\<close>. The optional field
  \<^verbatim>\<open>isError\<close> is the boolean \<open>isError\<close> (absent is \<open>False\<close>).
\<close>

datatype content_item = TextContent string | OtherContent string string

record tool_result =
  isError :: bool
  content :: "content_item list"

text \<open>The object built in every \<^verbatim>\<open>catch\<close> block and in every rejecting branch.\<close>

definition error_result :: "string \<Rightarrow> tool_result" where
  "error_result msg = \<lparr>isError = True, content = [TextContent msg]\<rparr>"

definition text_result :: "string \<Rightarrow> tool_result" where
  "text_result msg = \<lparr>isError = False, content = [TextContent msg]\<rparr>"

text \<open>
  \<^verbatim>\<open>transformHandlerResponse\<close>: copies the result and rebuilds every item of type
  \<^verbatim>\<open>"text"\<close> from its \<^verbatim>\<open>text\<close> field; any other item is kept.
\<close>

definition transformHandlerResponse :: "tool_result \<Rightarrow> tool_result" where
  "transformHandlerResponse result =
     result\<lparr>content := map (\<lambda>item. case item of TextContent t \<Rightarrow> TextContent t
                                              | OtherContent ty v \<Rightarrow> OtherContent ty v)
                           (content result)\<rparr>"

text \<open>An \<^verbatim>\<open>async\<close> library handler either returns a result or throws an error with a message.\<close>

datatype 'a outcome = Returned 'a | Thrown string

section \<open>Decimal rendering of numbers in template literals\<close>

definition digit_char :: "nat \<Rightarrow> char" where
  "digit_char d = ''0123456789'' ! d"

fun string_of_nat :: "nat \<Rightarrow> string" where
  "string_of_nat n =
     (if n < 10 then [digit_char n]
      else string_of_nat (n div 10) @ [digit_char (n mod 10)])"

declare string_of_nat.simps [simp del]

definition string_of_int :: "int \<Rightarrow> string" where
  "string_of_int i = (if i < 0 then CHR ''-'' # string_of_nat (nat (- i)) else string_of_nat (nat i))"

section \<open>Transactions, the registry and the effects of a handler\<close>

type_synonym client = nat
type_synonym txref = nat

text \<open>
  A transaction object. \<^verbatim>\<open>src/index.ts\<close> reads and writes the fields \<^verbatim>\<open>client\<close> and
  \<^verbatim>\<open>released\<close>; the creation timestamp is the third field of the data model (spec 3)
  and is read by the monitor only.
\<close>

record transaction =
  client :: client
  createdAt :: int
  released :: bool

text \<open>
  The effects a handler has on its collaborators, in the order in which they happen:
  a connection taken from the pool, a statement sent on a connection, the assignment
  \<^verbatim>\<open>tx.released = true\<close>, a connection given back to the pool, and a call of
  \<^verbatim>\<open>removeTransaction\<close>.
\<close>

datatype event =
    EvAcquire client
  | EvQuery client string
  | EvSetReleased txref
  | EvRelease client
  | EvRemove string

text \<open>
  Transaction objects live in a store, since a handler keeps its reference \<^verbatim>\<open>tx\<close> across
  an \<^verbatim>\<open>await\<close> while the registry may drop the entry in between.
\<close>

record state =
  heap :: "txref \<Rightarrow> transaction"
  activeTransactions :: "string \<rightharpoonup> txref"
  trace :: "event list"

text \<open>
  The class \<^verbatim>\<open>TransactionManager\<close> is imported from \<^verbatim>\<open>./lib/transaction-manager.js\<close>,
  which is not among the sources; the four members that \<^verbatim>\<open>src/index.ts\<close> calls follow
  the registry operations of spec 4.1.
\<close>

text \<open>Modelled from the spec: \<^verbatim>\<open>TransactionManager.hasTransaction\<close> is missing; spec 4.1,
  \<open>has(id) \<rightarrow> bool\<close>.\<close>

definition hasTransaction :: "string \<Rightarrow> state \<Rightarrow> bool" where
  "hasTransaction tid s = (activeTransactions s tid \<noteq> None)"

text \<open>Modelled from the spec: \<^verbatim>\<open>TransactionManager.getTransaction\<close> is missing; spec 4.1,
  \<open>get(id) \<rightarrow> Transaction | NotFound\<close> (\<open>None\<close> is the source's undefined).\<close>

definition getTransaction :: "string \<Rightarrow> state \<Rightarrow> txref option" where
  "getTransaction tid s = activeTransactions s tid"

text \<open>Modelled from the spec: \<^verbatim>\<open>TransactionManager.removeTransaction\<close> is missing; spec 4.1,
  \<open>remove(id)\<close>: idempotent, removing an absent id is a no-op on the registry.\<close>

definition removeTransaction :: "string \<Rightarrow> state \<Rightarrow> state" where
  "removeTransaction tid s =
     s\<lparr>activeTransactions := (activeTransactions s)(tid := None),
       trace := trace s @ [EvRemove tid]\<rparr>"

text \<open>Modelled from the spec: the getter \<^verbatim>\<open>TransactionManager.transactionCount\<close> is
  missing; spec 4.1, \<open>count()\<close>: the number of currently tracked transactions.\<close>

definition transactionCount :: "state \<Rightarrow> nat" where
  "transactionCount s = card (dom (activeTransactions s))"

text \<open>
  Modelled from the spec: \<^verbatim>\<open>safelyReleaseClient\<close> is imported from \<^verbatim>\<open>./lib/utils.js\<close>,
  which is not among the sources. It is the pool's \<open>release(connection)\<close> of spec 6,
  and it does not throw.
\<close>

definition safelyReleaseClient :: "client \<Rightarrow> state \<Rightarrow> state" where
  "safelyReleaseClient c s = s\<lparr>trace := trace s @ [EvRelease c]\<rparr>"

text \<open>\<^verbatim>\<open>tx.client.query(sql)\<close>: the statement is sent on the connection.\<close>

definition client_query :: "client \<Rightarrow> string \<Rightarrow> state \<Rightarrow> state" where
  "client_query c sql s = s\<lparr>trace := trace s @ [EvQuery c sql]\<rparr>"

text \<open>\<^verbatim>\<open>tx.released = true\<close> on the object behind the reference.\<close>

definition set_released :: "txref \<Rightarrow> state \<Rightarrow> state" where
  "set_released tx s =
     s\<lparr>heap := (heap s)(tx := (heap s tx)\<lparr>released := True\<rparr>),
       trace := trace s @ [EvSetReleased tx]\<rparr>"

section \<open>The tool \<^verbatim>\<open>execute_dml_ddl_dcl_tcl\<close>\<close>

text \<open>
  \<^verbatim>\<open>handleExecuteDML\<close> (\<^verbatim>\<open>./lib/tool-handlers.js\<close>) is not among the sources: it is a
  parameter, any function of the SQL text, the timeout and the state. It is the only place
  of this tool that is handed the pool. \<^verbatim>\<open>config.maxConcurrentTransactions\<close> and
  \<^verbatim>\<open>config.transactionTimeoutMs\<close> are parameters as well.
\<close>

definition execute_dml_ddl_dcl_tcl ::
  "(string \<Rightarrow> int \<Rightarrow> state \<Rightarrow> tool_result outcome \<times> state) \<Rightarrow> int \<Rightarrow> int \<Rightarrow> string \<Rightarrow> state
     \<Rightarrow> tool_result \<times> state" where
  "execute_dml_ddl_dcl_tcl handleExecuteDML maxConcurrentTransactions transactionTimeoutMs sql s =
     (if int (transactionCount s) \<ge> maxConcurrentTransactions
      then (error_result (''Limit reached ('' @ string_of_int maxConcurrentTransactions @ ''). Try later.''), s)
      else (case handleExecuteDML sql transactionTimeoutMs s of
              (Returned r, s') \<Rightarrow> (transformHandlerResponse r, s')
            | (Thrown msg, s') \<Rightarrow> (error_result msg, s')))"

section \<open>The tool \<^verbatim>\<open>execute_rollback\<close>\<close>

text \<open>
  The handler has one \<^verbatim>\<open>await\<close>, on \<^verbatim>\<open>tx.client.query("ROLLBACK")\<close>. Everything before
  it runs without interruption (\<open>rollback_start\<close>), everything after it as well
  (\<open>rollback_resume\<close>); other handlers may run between the two. The statement is sent
  when \<^verbatim>\<open>query\<close> is called; its outcome (\<open>None\<close>: the promise resolves, \<open>Some msg\<close>: it
  rejects with an error of that message) is known at the resumption.
\<close>

datatype rollback_step = Finished tool_result | Awaiting txref string

definition rollback_start :: "string \<Rightarrow> state \<Rightarrow> rollback_step \<times> state" where
  "rollback_start transaction_id s =
     (if \<not> hasTransaction transaction_id s
      then (Finished (error_result (''Transaction not found: '' @ transaction_id)), s)
      else (case getTransaction transaction_id s of
              None \<Rightarrow> (Finished (error_result ''Cannot read properties of undefined (reading 'released')''), s)
            | Some tx \<Rightarrow>
                if released (heap s tx)
                then (Finished (error_result (''Already released: '' @ transaction_id)),
                      removeTransaction transaction_id s)
                else (Awaiting tx transaction_id, client_query (client (heap s tx)) ''ROLLBACK'' s)))"

definition rollback_resume :: "string option \<Rightarrow> txref \<Rightarrow> string \<Rightarrow> state \<Rightarrow> tool_result \<times> state" where
  "rollback_resume query_outcome tx transaction_id s =
     (case query_outcome of
        Some msg \<Rightarrow> (error_result msg, s)
      | None \<Rightarrow>
          (text_result (''Rolled back: '' @ transaction_id @ ''. No changes applied.''),
           removeTransaction transaction_id
             (safelyReleaseClient (client (heap s tx)) (set_released tx s))))"

text \<open>The rest of a request after its first half: a request that has returned already
  has its result; a suspended one resumes.\<close>

definition resume_step :: "string option \<Rightarrow> rollback_step \<Rightarrow> state \<Rightarrow> tool_result \<times> state" where
  "resume_step query_outcome st s =
     (case st of
        Finished r \<Rightarrow> (r, s)
      | Awaiting tx tid \<Rightarrow> rollback_resume query_outcome tx tid s)"

text \<open>The handler run on its own, with nothing in between its two halves.\<close>

definition execute_rollback :: "string option \<Rightarrow> string \<Rightarrow> state \<Rightarrow> tool_result \<times> state" where
  "execute_rollback query_outcome transaction_id s =
     (case rollback_start transaction_id s of
        (st, s') \<Rightarrow> resume_step query_outcome st s')"

section \<open>The tool \<^verbatim>\<open>execute_commit\<close> and the monitor\<close>

text \<open>
  \<^verbatim>\<open>handleExecuteCommit\<close> (\<^verbatim>\<open>./lib/tool-handlers.js\<close>) and the monitor of
  \<^verbatim>\<open>TransactionManager\<close> (\<^verbatim>\<open>./lib/transaction-manager.js\<close>) are not among the sources.
  Both follow the procedure \<open>finalize(id, mode)\<close> of spec 4.2, with the failures of
  spec 7.
\<close>

datatype mode = Commit | Rollback

datatype failure = NotFound | AlreadyReleased | UpstreamQueryError string

definition terminal_statement :: "mode \<Rightarrow> string" where
  "terminal_statement m = (case m of Commit \<Rightarrow> ''COMMIT'' | Rollback \<Rightarrow> ''ROLLBACK'')"

text \<open>
  Modelled from the spec: the finalization procedure behind \<^verbatim>\<open>handleExecuteCommit\<close> and
  the monitor is missing; spec 4.2: look the id up, absent fails with \<open>NotFound\<close>;
  \<open>released\<close> already true fails with \<open>AlreadyReleased\<close> and the entry is removed;
  otherwise set \<open>released = true\<close> in the same uninterrupted step as the check, issue the
  terminal statement on the bound connection, release the connection, remove the
  entry. A statement that the database rejects surfaces as \<open>UpstreamQueryError\<close>
  (spec 7). The whole procedure is one step: nothing runs between its check and its
  assignment.
\<close>

definition finalize :: "mode \<Rightarrow> string option \<Rightarrow> string \<Rightarrow> state \<Rightarrow> (failure + mode \<times> string) \<times> state" where
  "finalize m query_outcome tid s =
     (case activeTransactions s tid of
        None \<Rightarrow> (Inl NotFound, s)
      | Some tx \<Rightarrow>
          if released (heap s tx) then (Inl AlreadyReleased, removeTransaction tid s)
          else (case query_outcome of None \<Rightarrow> Inr (m, tid) | Some msg \<Rightarrow> Inl (UpstreamQueryError msg),
                removeTransaction tid
                  (safelyReleaseClient (client (heap s tx))
                     (client_query (client (heap s tx)) (terminal_statement m)
                        (set_released tx s)))))"

text \<open>Modelled from the spec: the texts of the commit handler are missing; the failures
  of spec 7 are worded as \<^verbatim>\<open>execute_rollback\<close> words them in the source.\<close>

definition failure_message :: "failure \<Rightarrow> string \<Rightarrow> string" where
  "failure_message f tid =
     (case f of NotFound \<Rightarrow> ''Transaction not found: '' @ tid
              | AlreadyReleased \<Rightarrow> ''Already released: '' @ tid
              | UpstreamQueryError msg \<Rightarrow> msg)"

text \<open>Modelled from the spec: the confirmation of the commit handler is missing; spec 4.2,
  step 4: it names the mode that was applied and the identifier.\<close>

definition confirmation :: "mode \<Rightarrow> string \<Rightarrow> string" where
  "confirmation m tid = (case m of Commit \<Rightarrow> ''Committed: '' @ tid | Rollback \<Rightarrow> ''Rolled back: '' @ tid)"

text \<open>Modelled from the spec: \<^verbatim>\<open>handleExecuteCommit\<close> (\<^verbatim>\<open>./lib/tool-handlers.js\<close>) is
  missing; spec 4.2 with mode commit. A failure is thrown, a confirmation returned.\<close>

definition handleExecuteCommit :: "string option \<Rightarrow> string \<Rightarrow> state \<Rightarrow> tool_result outcome \<times> state" where
  "handleExecuteCommit query_outcome tid s =
     (case finalize Commit query_outcome tid s of
        (Inl f, s') \<Rightarrow> (Thrown (failure_message f tid), s')
      | (Inr (m, i), s') \<Rightarrow> (Returned (text_result (confirmation m i)), s'))"

text \<open>The tool handler itself is in \<^verbatim>\<open>src/index.ts\<close>: it transforms what the library
  handler returns and turns what it throws into an error result.\<close>

definition execute_commit ::
  "(string \<Rightarrow> state \<Rightarrow> tool_result outcome \<times> state) \<Rightarrow> string \<Rightarrow> state \<Rightarrow> tool_result \<times> state" where
  "execute_commit handleCommit transaction_id s =
     (case handleCommit transaction_id s of
        (Returned r, s') \<Rightarrow> (transformHandlerResponse r, s')
      | (Thrown msg, s') \<Rightarrow> (error_result msg, s'))"

text \<open>
  Modelled from the spec: the monitor of \<^verbatim>\<open>TransactionManager\<close> is missing; spec 4.4:
  one visit of its sweep to the entry \<open>tid\<close> at time \<open>now\<close>, where an entry whose age
  \<open>now - createdAt\<close> exceeds the timeout is put through the finalization of spec 4.2
  with mode rollback.
\<close>

definition monitor_visit :: "int \<Rightarrow> int \<Rightarrow> string option \<Rightarrow> string \<Rightarrow> state \<Rightarrow> (failure + mode \<times> string) option \<times> state" where
  "monitor_visit now transactionTimeoutMs query_outcome tid s =
     (case activeTransactions s tid of
        None \<Rightarrow> (None, s)
      | Some tx \<Rightarrow>
          if now - createdAt (heap s tx) > transactionTimeoutMs
          then (case finalize Rollback query_outcome tid s of (r, s') \<Rightarrow> (Some r, s'))
          else (None, s))"

section \<open>Interleavings at the \<^verbatim>\<open>await\<close> of \<^verbatim>\<open>execute_rollback\<close>\<close>

text \<open>
  Two requests \<^verbatim>\<open>execute_rollback(tid)\<close> whose statements are both in flight: the first
  runs up to its \<^verbatim>\<open>await\<close>, then the second does, then each resumes with the outcome
  of its statement.
\<close>

definition two_rollbacks_interleaved ::
  "string option \<Rightarrow> string option \<Rightarrow> string \<Rightarrow> state \<Rightarrow> (tool_result \<times> tool_result) \<times> state" where
  "two_rollbacks_interleaved outcome1 outcome2 tid s =
     (case rollback_start tid s of
        (first, s1) \<Rightarrow>
          (case rollback_start tid s1 of
             (second, s2) \<Rightarrow>
               (case resume_step outcome1 first s2 of
                  (r1, s3) \<Rightarrow>
                    (case resume_step outcome2 second s3 of
                       (r2, s4) \<Rightarrow> ((r1, r2), s4)))))"

text \<open>
  The same two requests at the point where the first has resumed and returned and the
  second is still suspended: what the second request holds, and the state it will resume in.
\<close>

definition first_returned_second_suspended ::
  "string option \<Rightarrow> string \<Rightarrow> state \<Rightarrow> tool_result \<times> rollback_step \<times> state" where
  "first_returned_second_suspended outcome1 tid s =
     (case rollback_start tid s of
        (first, s1) \<Rightarrow>
          (case rollback_start tid s1 of
             (second, s2) \<Rightarrow>
               (case resume_step outcome1 first s2 of
                  (r1, s3) \<Rightarrow> (r1, second, s3))))"

text \<open>The same two requests one after the other.\<close>

definition two_rollbacks_in_sequence ::
  "string option \<Rightarrow> string option \<Rightarrow> string \<Rightarrow> state \<Rightarrow> (tool_result \<times> tool_result) \<times> state" where
  "two_rollbacks_in_sequence outcome1 outcome2 tid s =
     (case execute_rollback outcome1 tid s of
        (r1, s1) \<Rightarrow>
          (case execute_rollback outcome2 tid s1 of
             (r2, s2) \<Rightarrow> ((r1, r2), s2)))"

text \<open>
  A request \<^verbatim>\<open>execute_rollback(tid)\<close> suspended at its \<^verbatim>\<open>await\<close> while the monitor
  visits the same entry, and resumed afterwards.
\<close>

definition rollback_interleaved_with_monitor ::
  "int \<Rightarrow> int \<Rightarrow> string option \<Rightarrow> string option \<Rightarrow> string \<Rightarrow> state
     \<Rightarrow> ((failure + mode \<times> string) option \<times> tool_result) \<times> state" where
  "rollback_interleaved_with_monitor now transactionTimeoutMs monitor_outcome request_outcome tid s =
     (case rollback_start tid s of
        (request, s1) \<Rightarrow>
          (case monitor_visit now transactionTimeoutMs monitor_outcome tid s1 of
             (swept, s2) \<Rightarrow>
               (case resume_step request_outcome request s2 of
                  (r, s3) \<Rightarrow> ((swept, r), s3))))"

section \<open>The session multiplexer\<close>

subsection \<open>Request bodies\<close>

text \<open>\<^verbatim>\<open>req.body\<close> is what \<^verbatim>\<open>express.json()\<close> parsed: a JSON value, or undefined (\<open>None\<close>).\<close>

datatype json =
    JNull
  | JBool bool
  | JNum int
  | JStr string
  | JArr "json list"
  | JObj "(string \<times> json) list"

text \<open>
  \<^verbatim>\<open>v?.k\<close> for the three keys the handler reads (\<^verbatim>\<open>method\<close>, \<^verbatim>\<open>params\<close>,
  \<^verbatim>\<open>protocolVersion\<close>, none of which a prototype defines): the member of an object,
  undefined on anything else. A parsed object lists each of its keys once.
\<close>

fun js_get :: "json option \<Rightarrow> string \<Rightarrow> json option" where
  "js_get (Some (JObj kvs)) k = map_of kvs k"
| "js_get _ k = None"

fun typeof :: "json option \<Rightarrow> string" where
  "typeof None = ''undefined''"
| "typeof (Some JNull) = ''object''"
| "typeof (Some (JBool b)) = ''boolean''"
| "typeof (Some (JNum n)) = ''number''"
| "typeof (Some (JStr s)) = ''string''"
| "typeof (Some (JArr xs)) = ''object''"
| "typeof (Some (JObj kvs)) = ''object''"

definition isInitRequest :: "json option \<Rightarrow> bool" where
  "isInitRequest body =
     (js_get body ''method'' = Some (JStr ''initialize'') \<and>
      typeof (js_get body ''params'') = ''object'' \<and>
      typeof (js_get (js_get body ''params'') ''protocolVersion'') = ''string'')"

subsection \<open>The object \<^verbatim>\<open>transports\<close>\<close>

text \<open>
  \<^verbatim>\<open>const transports = {}\<close> is a plain object: reading \<^verbatim>\<open>transports[k]\<close> gives the own
  property \<open>k\<close> when there is one and otherwise the member \<open>k\<close> of \<^verbatim>\<open>Object.prototype\<close>,
  which is a function (an object for \<^verbatim>\<open>__proto__\<close>) and so is truthy.
\<close>

datatype 'a slot = Own 'a | Inherited

definition object_prototype_keys :: "string list" where
  "object_prototype_keys =
     [''constructor'', ''hasOwnProperty'', ''isPrototypeOf'', ''propertyIsEnumerable'',
      ''toLocaleString'', ''toString'', ''valueOf'', ''__proto__'',
      ''__defineGetter__'', ''__defineSetter__'', ''__lookupGetter__'', ''__lookupSetter__'']"

definition obj_get :: "(string \<rightharpoonup> 'a) \<Rightarrow> string \<Rightarrow> 'a slot option" where
  "obj_get obj k =
     (case obj k of
        Some v \<Rightarrow> Some (Own v)
      | None \<Rightarrow> if k \<in> set object_prototype_keys then Some Inherited else None)"

type_synonym tref = nat

text \<open>
  A transport object of the SDK; \<^verbatim>\<open>sessionId\<close> is undefined until the transport has
  initialized its session.
\<close>

record transport =
  sessionId :: "string option"

record mux =
  transports :: "string \<rightharpoonup> tref"
  transport_objs :: "tref \<Rightarrow> transport"
  created :: nat

text \<open>
  The value of \<^verbatim>\<open>sessionId && transports[sessionId]\<close> as far as the handlers use it:
  \<open>None\<close> is a falsy value (no header, an empty header, or no such property).
\<close>

definition session_lookup :: "mux \<Rightarrow> string option \<Rightarrow> tref slot option" where
  "session_lookup m sid =
     (case sid of
        None \<Rightarrow> None
      | Some k \<Rightarrow> if k = [] then None else obj_get (transports m) k)"

text \<open>The two callbacks the handler installs on a new transport.\<close>

definition onsessioninitialized :: "tref \<Rightarrow> string \<Rightarrow> mux \<Rightarrow> mux" where
  "onsessioninitialized t sid m = m\<lparr>transports := (transports m)(sid \<mapsto> t)\<rparr>"

definition onclose :: "tref \<Rightarrow> mux \<Rightarrow> mux" where
  "onclose t m =
     (case sessionId (transport_objs m t) of
        None \<Rightarrow> m
      | Some sid \<Rightarrow> if sid = [] then m else m\<lparr>transports := (transports m)(sid := None)\<rparr>)"

subsection \<open>The handlers of \<^verbatim>\<open>/mcp\<close>\<close>

text \<open>
  What the caller gets: the headers the handler set itself, and either the JSON-RPC error
  object of the rejecting branch (status, \<^verbatim>\<open>error.code\<close>, \<^verbatim>\<open>error.message\<close>), a plain
  text error (status, body), the answer that the transport writes
  (\<^verbatim>\<open>transport.handleRequest\<close>), or nothing because an exception left the handler.
\<close>

datatype reply =
    JsonRpcError nat int string
  | PlainError nat string
  | HandledBy tref
  | Unhandled string

record response =
  headers :: "(string \<times> string) list"
  reply :: reply

text \<open>
  \<^verbatim>\<open>app.post("/mcp")\<close>. \<open>newSessionId\<close> is what \<^verbatim>\<open>randomUUID()\<close> returns.
  \<^verbatim>\<open>StreamableHTTPServerTransport\<close> is a class of the SDK: whether its \<^verbatim>\<open>handleRequest\<close>
  takes the request as a valid initialization, and then calls \<^verbatim>\<open>sessionIdGenerator\<close> and
  \<^verbatim>\<open>onsessioninitialized\<close>, is its own decision (\<open>transport_initializes\<close>).
\<close>

definition post_mcp :: "string \<Rightarrow> bool \<Rightarrow> string option \<Rightarrow> json option \<Rightarrow> mux \<Rightarrow> response \<times> mux" where
  "post_mcp newSessionId transport_initializes session_header body m =
     (case session_lookup m session_header of
        Some (Own t) \<Rightarrow> (\<lparr>headers = [], reply = HandledBy t\<rparr>, m)
      | Some Inherited \<Rightarrow> (\<lparr>headers = [], reply = Unhandled ''transport.handleRequest is not a function''\<rparr>, m)
      | None \<Rightarrow>
          if (session_header = None \<or> session_header = Some []) \<and> isInitRequest body
          then
            (let t = created m;
                 m1 = m\<lparr>transport_objs := (transport_objs m)(t := \<lparr>sessionId = None\<rparr>),
                        created := Suc t\<rparr>;
                 m2 = (if transport_initializes
                       then onsessioninitialized t newSessionId
                              (m1\<lparr>transport_objs := (transport_objs m1)(t := \<lparr>sessionId = Some newSessionId\<rparr>)\<rparr>)
                       else m1)
             in (\<lparr>headers = [(''mcp-session-id'', newSessionId)], reply = HandledBy t\<rparr>, m2))
          else (\<lparr>headers = [],
                 reply = JsonRpcError 400 (- 32000) ''Bad Request: No valid session ID provided''\<rparr>, m))"

text \<open>
  \<^verbatim>\<open>handleSessionRequest\<close>, for GET and DELETE. Whether the transport closes while it
  handles the request (as for a DELETE), and so calls \<^verbatim>\<open>onclose\<close>, is \<open>transport_closes\<close>.
\<close>

definition handleSessionRequest :: "bool \<Rightarrow> string option \<Rightarrow> mux \<Rightarrow> response \<times> mux" where
  "handleSessionRequest transport_closes session_header m =
     (case session_lookup m session_header of
        None \<Rightarrow> (\<lparr>headers = [], reply = PlainError 400 ''Invalid or missing session ID''\<rparr>, m)
      | Some Inherited \<Rightarrow> (\<lparr>headers = [], reply = Unhandled ''transport.handleRequest is not a function''\<rparr>, m)
      | Some (Own t) \<Rightarrow>
          (\<lparr>headers = [], reply = HandledBy t\<rparr>, if transport_closes then onclose t m else m))"

text \<open>The states of the multiplexer that the server can be in.\<close>

definition mux_init :: mux where
  "mux_init = \<lparr>transports = Map.empty, transport_objs = (\<lambda>_. \<lparr>sessionId = None\<rparr>), created = 0\<rparr>"

text \<open>
  What \<^verbatim>\<open>randomUUID()\<close> is relied on for: a string of 36 characters that no transport
  created so far carries as its session id.
\<close>

definition fresh_uuid :: "mux \<Rightarrow> string \<Rightarrow> bool" where
  "fresh_uuid m u =
     (length u = 36 \<and> (\<forall>t < created m. sessionId (transport_objs m t) \<noteq> Some u))"

inductive reachable :: "mux \<Rightarrow> bool" where
  start: "reachable mux_init"
| post: "reachable m \<Longrightarrow> fresh_uuid m u \<Longrightarrow> reachable (snd (post_mcp u a h b m))"
| session: "reachable m \<Longrightarrow> reachable (snd (handleSessionRequest c h m))"
| close: "reachable m \<Longrightarrow> t < created m \<Longrightarrow> reachable (onclose t m)"

text \<open>
  Every registered pairing is a transport that was created and that carries the id it is
  registered under; no two transports carry the same session id; every session id is a
  UUID string.
\<close>

definition consistent :: "mux \<Rightarrow> bool" where
  "consistent m =
     ((\<forall>sid t. transports m sid = Some t \<longrightarrow>
         t < created m \<and> sessionId (transport_objs m t) = Some sid) \<and>
      (\<forall>t t' sid. t < created m \<and> t' < created m \<and>
         sessionId (transport_objs m t) = Some sid \<and>
         sessionId (transport_objs m t') = Some sid \<longrightarrow> t = t') \<and>
      (\<forall>t sid. t < created m \<and> sessionId (transport_objs m t) = Some sid \<longrightarrow> length sid = 36))"

section \<open>Sample states\<close>

definition tx_open :: transaction where
  "tx_open = \<lparr>client = 7, createdAt = 0, released = False\<rparr>"

definition tx_done :: transaction where
  "tx_done = \<lparr>client = 7, createdAt = 0, released = True\<rparr>"

definition st_one :: state where
  "st_one = \<lparr>heap = (\<lambda>_. tx_open), activeTransactions = [''tx-1'' \<mapsto> 0], trace = []\<rparr>"

definition st_stale :: state where
  "st_stale = \<lparr>heap = (\<lambda>_. tx_done), activeTransactions = [''tx-1'' \<mapsto> 0], trace = []\<rparr>"

definition acquiring_handler :: "string \<Rightarrow> int \<Rightarrow> state \<Rightarrow> tool_result outcome \<times> state" where
  "acquiring_handler sql tmo s =
     (Returned (text_result ''ok''), s\<lparr>trace := trace s @ [EvAcquire 1]\<rparr>)"

definition init_body :: "json option" where
  "init_body = Some (JObj [(''method'', JStr ''initialize''),
                           (''params'', JObj [(''protocolVersion'', JStr ''2025-03-26'')])])"

definition list_body :: "json option" where
  "list_body = Some (JObj [(''jsonrpc'', JStr ''2.0''), (''id'', JNum 2), (''method'', JStr ''tools/list'')])"

definition sample_uuid :: string where
  "sample_uuid = ''3f2b8c1e-5d4a-4c7b-9e2f-1a6b7c8d9e0f''"

definition mux_one :: mux where
  "mux_one = snd (post_mcp sample_uuid True None init_body mux_init)"

section \<open>Basic facts\<close>

lemmas rollback_defs =
  execute_rollback_def rollback_start_def rollback_resume_def resume_step_def
  hasTransaction_def getTransaction_def
  client_query_def set_released_def safelyReleaseClient_def removeTransaction_def

lemmas commit_defs =
  execute_commit_def handleExecuteCommit_def finalize_def failure_message_def confirmation_def
  terminal_statement_def client_query_def set_released_def safelyReleaseClient_def
  removeTransaction_def

lemma string_of_int_1: "string_of_int 1 = ''1''"
  by (simp add: string_of_int_def string_of_nat.simps digit_char_def)

lemma transactionCount_st_one: "transactionCount st_one = 1"
  by (simp add: transactionCount_def st_one_def)

lemma transformHandlerResponse_id: "transformHandlerResponse r = r"
proof -
  have "map (\<lambda>item. case item of TextContent t \<Rightarrow> TextContent t
                               | OtherContent ty v \<Rightarrow> OtherContent ty v) xs = xs" for xs
    by (induction xs) (auto split: content_item.splits)
  then show ?thesis by (simp add: transformHandlerResponse_def)
qed

text \<open>The \<^verbatim>\<open>!\<close> of \<^verbatim>\<open>getTransaction(transaction_id)!\<close> is justified: after a positive
  \<^verbatim>\<open>hasTransaction\<close> the lookup is defined.\<close>

lemma getTransaction_after_has: "hasTransaction tid s \<Longrightarrow> \<exists>tx. getTransaction tid s = Some tx"
  by (simp add: hasTransaction_def getTransaction_def)

lemma rollback_absent:
  "activeTransactions s tid = None \<Longrightarrow>
   execute_rollback q tid s = (error_result (''Transaction not found: '' @ tid), s)"
  by (simp add: rollback_defs)

lemma commit_absent:
  "activeTransactions s tid = None \<Longrightarrow>
   execute_commit (handleExecuteCommit q) tid s = (error_result (''Transaction not found: '' @ tid), s)"
  by (simp add: commit_defs transformHandlerResponse_id)

lemma rollback_success_removes:
  "\<not> isError (fst (execute_rollback q tid s)) \<Longrightarrow>
   activeTransactions (snd (execute_rollback q tid s)) tid = None"
  by (auto simp: rollback_defs error_result_def split: option.splits if_splits)

lemma commit_success_removes:
  "\<not> isError (fst (execute_commit (handleExecuteCommit q) tid s)) \<Longrightarrow>
   activeTransactions (snd (execute_commit (handleExecuteCommit q) tid s)) tid = None"
  by (auto simp: commit_defs error_result_def transformHandlerResponse_id split: option.splits if_splits)

text \<open>A finalization that starts when the id is absent, or from the state that a
  completed successful rollback or commit of that id has left, finds no entry.\<close>

lemma finalize_absent_not_found:
  assumes "activeTransactions s tid = None
           \<or> (s = snd (execute_rollback q0 tid s0) \<and> \<not> isError (fst (execute_rollback q0 tid s0)))
           \<or> (s = snd (execute_commit (handleExecuteCommit q0) tid s0) \<and>
              \<not> isError (fst (execute_commit (handleExecuteCommit q0) tid s0)))"
  shows "execute_rollback q tid s = (error_result (''Transaction not found: '' @ tid), s) \<and>
         execute_commit (handleExecuteCommit q) tid s =
           (error_result (''Transaction not found: '' @ tid), s)"
proof -
  from assms have "activeTransactions s tid = None"
    using rollback_success_removes [of q0 tid s0] commit_success_removes [of q0 tid s0]
    by auto
  then show ?thesis
    by (simp add: rollback_absent commit_absent)
qed

text \<open>Below the ceiling the library handler is run and its outcome is the answer.\<close>

lemma admission_gate_admits:
  assumes "int (transactionCount s) < maxConcurrentTransactions"
  shows "execute_dml_ddl_dcl_tcl handleExecuteDML maxConcurrentTransactions tmo sql s =
           (case handleExecuteDML sql tmo s of
              (Returned r, s') \<Rightarrow> (r, s')
            | (Thrown msg, s') \<Rightarrow> (error_result msg, s'))"
  using assms
  by (simp add: execute_dml_ddl_dcl_tcl_def transformHandlerResponse_id split: prod.splits outcome.splits)

text \<open>One after the other, the second of two rollbacks of an open transaction finds the
  entry gone, and the connection is given back once.\<close>

lemma two_rollbacks_in_sequence_st_one:
  "two_rollbacks_in_sequence None None ''tx-1'' st_one =
     ((text_result ''Rolled back: tx-1. No changes applied.'',
       error_result ''Transaction not found: tx-1''),
      \<lparr>heap = (\<lambda>_. tx_open)(0 := tx_done), activeTransactions = Map.empty,
       trace = [EvQuery 7 ''ROLLBACK'', EvSetReleased 0, EvRelease 7, EvRemove ''tx-1'']\<rparr>)"
  by (simp add: two_rollbacks_in_sequence_def rollback_defs st_one_def tx_open_def tx_done_def)

text \<open>Sequentially, one call of the handler gives the connection back at most once.\<close>

lemma rollback_releases_at_most_once:
  "\<exists>evs. trace (snd (execute_rollback q tid s)) = trace s @ evs \<and>
         (\<forall>c. count_list evs (EvRelease c) \<le> 1)"
  by (auto simp: rollback_defs split: option.splits if_splits)

lemma isInitRequest_init_body: "isInitRequest init_body"
  by (simp add: isInitRequest_def init_body_def)

lemma not_isInitRequest_list_body: "\<not> isInitRequest list_body"
  by (simp add: isInitRequest_def list_body_def)

lemma session_lookup_None_iff:
  "session_lookup m h = None \<longleftrightarrow>
     (h = None \<or> h = Some [] \<or>
      (\<exists>k. h = Some k \<and> transports m k = None \<and> k \<notin> set object_prototype_keys))"
  by (auto simp: session_lookup_def obj_get_def split: option.splits)

text \<open>Outside the names that \<^verbatim>\<open>Object.prototype\<close> defines, a request that is no
  initialization and has no known session id is rejected and changes nothing.\<close>

lemma unknown_session_rejected:
  assumes "session_lookup m h = None" and "\<not> isInitRequest body"
  shows "post_mcp u a h body m =
           (\<lparr>headers = [], reply = JsonRpcError 400 (- 32000) ''Bad Request: No valid session ID provided''\<rparr>, m)"
    and "handleSessionRequest c h m =
           (\<lparr>headers = [], reply = PlainError 400 ''Invalid or missing session ID''\<rparr>, m)"
  using assms by (simp_all add: post_mcp_def handleSessionRequest_def)

lemma consistent_mux_init: "consistent mux_init"
  by (simp add: consistent_def mux_init_def)

lemma onclose_fields:
  "created (onclose t m) = created m" "transport_objs (onclose t m) = transport_objs m"
  by (simp_all add: onclose_def split: option.splits)

lemma onclose_transports:
  "transports (onclose t m) k = Some p \<Longrightarrow> transports m k = Some p"
  by (auto simp: onclose_def split: option.splits if_splits)

lemma consistent_onclose:
  assumes "consistent m"
  shows "consistent (onclose t m)"
  using assms unfolding consistent_def onclose_fields
  by (meson onclose_transports)

lemma consistent_handleSessionRequest:
  "consistent m \<Longrightarrow> consistent (snd (handleSessionRequest c h m))"
  by (auto simp: handleSessionRequest_def consistent_onclose split: option.splits slot.splits)

text \<open>A new transport that did not initialize its session: one more object, no mapping.\<close>

lemma consistent_created:
  assumes "consistent m"
  shows "consistent (m\<lparr>transport_objs := (transport_objs m)(created m := \<lparr>sessionId = None\<rparr>),
                       created := Suc (created m)\<rparr>)"
  using assms unfolding consistent_def
  by (auto simp: less_Suc_eq)

text \<open>A new transport that initialized its session with a fresh id.\<close>

lemma consistent_registered:
  assumes "consistent m" and "fresh_uuid m u"
  shows "consistent (m\<lparr>created := Suc (created m),
                       transport_objs := (transport_objs m)(created m := \<lparr>sessionId = Some u\<rparr>),
                       transports := (transports m)(u \<mapsto> created m)\<rparr>)"
proof -
  have unmapped: "\<And>sid t. transports m sid = Some t \<Longrightarrow> t < created m \<and> sid \<noteq> u"
    using assms unfolding consistent_def fresh_uuid_def by blast
  show ?thesis
    using assms unmapped unfolding consistent_def fresh_uuid_def
    by (auto simp: less_Suc_eq)
qed

lemma consistent_post_mcp:
  assumes "consistent m" and "fresh_uuid m u"
  shows "consistent (snd (post_mcp u a h b m))"
  using assms consistent_created [of m] consistent_registered [of m u]
  by (auto simp: post_mcp_def onsessioninitialized_def Let_def split: option.splits slot.splits)

lemma reachable_consistent: "reachable m \<Longrightarrow> consistent m"
  by (induction rule: reachable.induct)
     (simp_all add: consistent_mux_init consistent_post_mcp consistent_handleSessionRequest
        consistent_onclose)

lemma onclose_idem: "onclose t (onclose t m) = onclose t m"
  by (simp add: onclose_def split: option.splits)

lemma fresh_sample_uuid: "fresh_uuid mux_init sample_uuid"
  by (simp add: fresh_uuid_def mux_init_def sample_uuid_def)

lemma reachable_mux_one: "reachable mux_one"
  unfolding mux_one_def by (rule reachable.post [OF reachable.start fresh_sample_uuid])

lemma mux_one_eq:
  "mux_one = \<lparr>transports = [sample_uuid \<mapsto> 0],
             transport_objs = (\<lambda>_. \<lparr>sessionId = None\<rparr>)(0 := \<lparr>sessionId = Some sample_uuid\<rparr>),
             created = 1\<rparr>"
  by (simp add: mux_one_def post_mcp_def session_lookup_def isInitRequest_init_body Let_def
      onsessioninitialized_def mux_init_def)

section \<open>The admission gate\<close>

text \<open>
  Claim C1. When the number of tracked transactions is at or above
  \<^verbatim>\<open>maxConcurrentTransactions\<close>, \<^verbatim>\<open>execute_dml_ddl_dcl_tcl\<close> answers with the error
  "Limit reached (max). Try later." and leaves the whole state as it was, whatever
  \<^verbatim>\<open>handleExecuteDML\<close> would have done: that handler, the only code of the tool that
  holds the pool, is not run, so no connection is acquired and the count of tracked
  transactions is unchanged.
\<close>

theorem admission_gate_rejects_before_pool:
  assumes "maxConcurrentTransactions \<le> int (transactionCount s)"
  shows "execute_dml_ddl_dcl_tcl handleExecuteDML maxConcurrentTransactions tmo sql s =
           (error_result (''Limit reached ('' @ string_of_int maxConcurrentTransactions @ ''). Try later.''), s)"
  using assms by (simp add: execute_dml_ddl_dcl_tcl_def)

text \<open>At a ceiling of 1 with one open transaction, a handler that would acquire a
  connection is not run.\<close>

theorem admission_gate_rejects_before_pool_witness:
  "1 \<le> int (transactionCount st_one) \<and>
   execute_dml_ddl_dcl_tcl acquiring_handler 1 30000 ''UPDATE t SET x = 1'' st_one =
     (error_result ''Limit reached (1). Try later.'', st_one) \<and>
   trace (snd (acquiring_handler ''UPDATE t SET x = 1'' 30000 st_one)) = [EvAcquire 1]"
proof -
  have h: "1 \<le> int (transactionCount st_one)"
    by (simp add: transactionCount_st_one)
  have "execute_dml_ddl_dcl_tcl acquiring_handler 1 30000 ''UPDATE t SET x = 1'' st_one =
          (error_result ''Limit reached (1). Try later.'', st_one)"
    using admission_gate_rejects_before_pool [OF h, of acquiring_handler 30000 "''UPDATE t SET x = 1''"]
    by (simp add: string_of_int_1)
  moreover have "trace (snd (acquiring_handler ''UPDATE t SET x = 1'' 30000 st_one)) = [EvAcquire 1]"
    by (simp add: acquiring_handler_def st_one_def)
  ultimately show ?thesis using h by simp
qed

section \<open>Rollback of an open transaction\<close>

text \<open>
  Claim C2 asks that, for a transaction in the registry with \<open>released = false\<close>, the
  flag is set in one step with its check, before the terminal statement is issued, and
  that release and removal follow. In the handler the check and the assignment are
  apart: for the open transaction \<open>tx-1\<close> the request sends \<^verbatim>\<open>ROLLBACK\<close> and is
  suspended at its \<^verbatim>\<open>await\<close> with the flag still false, and assigns it only after it has
  resumed, so that the order of effects is statement, flag, release, removal and not
  flag, statement, release, removal.
\<close>

theorem rollback_flag_set_after_await:
  "activeTransactions st_one ''tx-1'' = Some 0 \<and> \<not> released (heap st_one 0) \<and>
   rollback_start ''tx-1'' st_one =
     (Awaiting 0 ''tx-1'',
      \<lparr>heap = (\<lambda>_. tx_open), activeTransactions = [''tx-1'' \<mapsto> 0],
       trace = [EvQuery 7 ''ROLLBACK'']\<rparr>) \<and>
   \<not> released (heap (snd (rollback_start ''tx-1'' st_one)) 0) \<and>
   trace (snd (execute_rollback None ''tx-1'' st_one)) =
     [EvQuery 7 ''ROLLBACK'', EvSetReleased 0, EvRelease 7, EvRemove ''tx-1''] \<and>
   trace (snd (execute_rollback None ''tx-1'' st_one)) \<noteq>
     [EvSetReleased 0, EvQuery 7 ''ROLLBACK'', EvRelease 7, EvRemove ''tx-1'']"
  by (simp add: rollback_defs st_one_def tx_open_def)

section \<open>A further finalization of the same transaction\<close>

text \<open>
  Claim C3 asks that a commit or rollback of an id that is not in the registry fails
  with \<open>NotFound\<close>, and that after a successful finalize any further commit or rollback
  of the same id fails with \<open>NotFound\<close> or, if raced, with \<open>AlreadyReleased\<close>. A second
  request \<^verbatim>\<open>execute_rollback("tx-1")\<close> that was suspended at its \<^verbatim>\<open>await\<close> when the
  first one finalized resumes in a state where the first has answered with the
  confirmation, the entry is removed and the flag is true; it answers with the
  confirmation as well, with neither of the two failures.
\<close>

theorem raced_rollback_after_finalize_succeeds:
  "first_returned_second_suspended None ''tx-1'' st_one =
     (text_result ''Rolled back: tx-1. No changes applied.'',
      Awaiting 0 ''tx-1'',
      \<lparr>heap = (\<lambda>_. tx_open)(0 := tx_done), activeTransactions = Map.empty,
       trace = [EvQuery 7 ''ROLLBACK'', EvQuery 7 ''ROLLBACK'',
                EvSetReleased 0, EvRelease 7, EvRemove ''tx-1'']\<rparr>) \<and>
   fst (resume_step None (fst (snd (first_returned_second_suspended None ''tx-1'' st_one)))
          (snd (snd (first_returned_second_suspended None ''tx-1'' st_one)))) =
     text_result ''Rolled back: tx-1. No changes applied.'' \<and>
   fst (resume_step None (fst (snd (first_returned_second_suspended None ''tx-1'' st_one)))
          (snd (snd (first_returned_second_suspended None ''tx-1'' st_one)))) \<noteq>
     error_result ''Transaction not found: tx-1'' \<and>
   fst (resume_step None (fst (snd (first_returned_second_suspended None ''tx-1'' st_one)))
          (snd (snd (first_returned_second_suspended None ''tx-1'' st_one)))) \<noteq>
     error_result ''Already released: tx-1''"
  by (simp add: first_returned_second_suspended_def rollback_defs st_one_def tx_open_def
      tx_done_def text_result_def error_result_def)

section \<open>Rollback of a transaction that is already released\<close>

text \<open>
  Claim C4. For a transaction that is in the registry with \<open>released\<close> already true,
  \<^verbatim>\<open>execute_rollback\<close> fails with "Already released: id"; its only effect is the removal
  of the entry from the registry: no statement is sent and the connection is not given
  back again, whatever the outcome parameter.
\<close>

theorem rollback_already_released:
  assumes "activeTransactions s tid = Some tx" and "released (heap s tx)"
  shows "execute_rollback query_outcome tid s =
           (error_result (''Already released: '' @ tid),
            s\<lparr>activeTransactions := (activeTransactions s)(tid := None),
              trace := trace s @ [EvRemove tid]\<rparr>)"
  using assms by (simp add: rollback_defs)

theorem rollback_already_released_witness:
  "activeTransactions st_stale ''tx-1'' = Some 0 \<and> released (heap st_stale 0) \<and>
   execute_rollback None ''tx-1'' st_stale =
     (error_result ''Already released: tx-1'',
      \<lparr>heap = (\<lambda>_. tx_done), activeTransactions = Map.empty, trace = [EvRemove ''tx-1'']\<rparr>)"
  using rollback_already_released [of st_stale "''tx-1''" 0 None]
  by (simp add: st_stale_def tx_done_def)

section \<open>Two finalizations of one transaction\<close>

text \<open>
  Claim C5 asks that the connection of a transaction goes back to the pool exactly once.
  Two requests \<^verbatim>\<open>execute_rollback("tx-1")\<close> that are both suspended at their \<^verbatim>\<open>await\<close>
  before either resumes have both read \<open>released = false\<close>: both answer with the
  confirmation, and connection 7 is given back to the pool twice.
\<close>

theorem two_rollbacks_release_twice:
  "two_rollbacks_interleaved None None ''tx-1'' st_one =
     ((text_result ''Rolled back: tx-1. No changes applied.'',
       text_result ''Rolled back: tx-1. No changes applied.''),
      \<lparr>heap = (\<lambda>_. tx_open)(0 := tx_done), activeTransactions = Map.empty,
       trace = [EvQuery 7 ''ROLLBACK'', EvQuery 7 ''ROLLBACK'',
                EvSetReleased 0, EvRelease 7, EvRemove ''tx-1'',
                EvSetReleased 0, EvRelease 7, EvRemove ''tx-1'']\<rparr>) \<and>
   count_list (trace (snd (two_rollbacks_interleaved None None ''tx-1'' st_one))) (EvRelease 7) = 2"
  by (simp add: two_rollbacks_interleaved_def rollback_defs st_one_def tx_open_def tx_done_def)

text \<open>
  Claim C9 asks that the request path and the monitor never both succeed on one
  transaction. A request \<^verbatim>\<open>execute_rollback("tx-1")\<close> is suspended at its \<^verbatim>\<open>await\<close>,
  having read \<open>released = false\<close>; the monitor, at time 200 with a timeout of 100, finds
  the entry of age 200 and finalizes it in one step; the request resumes. Both succeed:
  the monitor reports the rollback, the request answers with the confirmation, the flag
  is assigned twice and connection 7 is given back twice.
\<close>

theorem rollback_and_monitor_both_succeed:
  "rollback_interleaved_with_monitor 200 100 None None ''tx-1'' st_one =
     ((Some (Inr (Rollback, ''tx-1'')), text_result ''Rolled back: tx-1. No changes applied.''),
      \<lparr>heap = (\<lambda>_. tx_open)(0 := tx_done), activeTransactions = Map.empty,
       trace = [EvQuery 7 ''ROLLBACK'',
                EvSetReleased 0, EvQuery 7 ''ROLLBACK'', EvRelease 7, EvRemove ''tx-1'',
                EvSetReleased 0, EvRelease 7, EvRemove ''tx-1'']\<rparr>) \<and>
   count_list (trace (snd (rollback_interleaved_with_monitor 200 100 None None ''tx-1'' st_one)))
     (EvSetReleased 0) = 2"
  by (simp add: rollback_interleaved_with_monitor_def monitor_visit_def finalize_def
      terminal_statement_def rollback_defs st_one_def tx_open_def tx_done_def)

section \<open>A terminal statement that fails\<close>

text \<open>
  Claim C10. When the \<^verbatim>\<open>ROLLBACK\<close> statement of \<^verbatim>\<open>execute_rollback\<close> throws, the handler
  answers with an error result that carries the message, and the only effect is the
  statement that was sent: the transaction stays in the registry, its flag stays false,
  and the connection is not given back to the pool.
\<close>

theorem rollback_statement_throws:
  assumes "activeTransactions s tid = Some tx" and "\<not> released (heap s tx)"
  shows "execute_rollback (Some msg) tid s =
           (error_result msg, s\<lparr>trace := trace s @ [EvQuery (client (heap s tx)) ''ROLLBACK'']\<rparr>)"
  using assms by (simp add: rollback_defs)

theorem rollback_statement_throws_witness:
  "activeTransactions st_one ''tx-1'' = Some 0 \<and> \<not> released (heap st_one 0) \<and>
   execute_rollback (Some ''connection terminated'') ''tx-1'' st_one =
     (error_result ''connection terminated'',
      \<lparr>heap = (\<lambda>_. tx_open), activeTransactions = [''tx-1'' \<mapsto> 0],
       trace = [EvQuery 7 ''ROLLBACK'']\<rparr>)"
  using rollback_statement_throws [of st_one "''tx-1''" 0 "''connection terminated''"]
  by (simp add: st_one_def tx_open_def)

section \<open>Session initialization\<close>

text \<open>
  Claim C6, as stated, has the mapping registered for every request without session id
  that the handler recognizes as an initialization. The handler registers nothing
  itself: it installs \<^verbatim>\<open>onsessioninitialized\<close>, and the transport calls it only when it
  accepts the request as an initialization by its own validation. For the body
  \<^verbatim>\<open>{"method": "initialize", "params": {"protocolVersion": "2025-03-26"}}\<close>, which passes
  the handler's check, and a transport that does not initialize, the answer carries the
  new session id and no mapping exists for it.
\<close>

theorem initialization_not_registered_counterexample:
  "isInitRequest init_body \<and>
   headers (fst (post_mcp sample_uuid False None init_body mux_init)) =
     [(''mcp-session-id'', sample_uuid)] \<and>
   transports (snd (post_mcp sample_uuid False None init_body mux_init)) sample_uuid = None"
  by (simp add: isInitRequest_init_body post_mcp_def session_lookup_def Let_def mux_init_def)

text \<open>
  Claim C6, amended. For a request without session id (no header, or an empty one) whose
  body passes the handler's initialization check, the handler takes a new session id
  from \<^verbatim>\<open>randomUUID\<close>, sets it as the answer's \<^verbatim>\<open>mcp-session-id\<close> header, constructs a
  new transport (one that no session id is mapped to) and hands it the request. When the
  transport initializes the session, the mapping from the new id to this transport is
  registered and the transport carries the id; when it does not, the session map is
  unchanged.
\<close>

theorem post_initialization:
  assumes "session_header = None \<or> session_header = Some []" and "isInitRequest body"
  shows "fst (post_mcp u a session_header body m) =
           \<lparr>headers = [(''mcp-session-id'', u)], reply = HandledBy (created m)\<rparr> \<and>
         created (snd (post_mcp u a session_header body m)) = Suc (created m) \<and>
         (reachable m \<longrightarrow> (\<forall>sid. transports m sid \<noteq> Some (created m))) \<and>
         (a \<longrightarrow> transports (snd (post_mcp u a session_header body m)) = (transports m)(u \<mapsto> created m) \<and>
               sessionId (transport_objs (snd (post_mcp u a session_header body m)) (created m)) = Some u) \<and>
         (\<not> a \<longrightarrow> transports (snd (post_mcp u a session_header body m)) = transports m)"
proof -
  have look: "session_lookup m session_header = None"
    using assms(1) by (auto simp: session_lookup_def)
  have new: "reachable m \<longrightarrow> (\<forall>sid. transports m sid \<noteq> Some (created m))"
    using reachable_consistent [of m] unfolding consistent_def by blast
  show ?thesis
    using assms look new
    by (auto simp: post_mcp_def Let_def onsessioninitialized_def)
qed

theorem post_initialization_witness:
  "isInitRequest init_body \<and> reachable mux_init \<and>
   fst (post_mcp sample_uuid True None init_body mux_init) =
     \<lparr>headers = [(''mcp-session-id'', sample_uuid)], reply = HandledBy 0\<rparr> \<and>
   created (snd (post_mcp sample_uuid True None init_body mux_init)) = 1 \<and>
   transports (snd (post_mcp sample_uuid True None init_body mux_init)) = [sample_uuid \<mapsto> 0] \<and>
   sessionId (transport_objs (snd (post_mcp sample_uuid True None init_body mux_init)) 0) =
     Some sample_uuid \<and>
   (\<forall>sid. transports mux_init sid \<noteq> Some 0)"
  using post_initialization [of None init_body sample_uuid True mux_init]
    isInitRequest_init_body reachable.start
  by (simp add: mux_init_def)

section \<open>Requests without a known session\<close>

text \<open>
  Claim C7 asks that every request that is no initialization and whose session id is
  missing or not in the session map is rejected with an error response. The session id
  \<^verbatim>\<open>constructor\<close> is in no session map, but \<^verbatim>\<open>transports["constructor"]\<close> is the member
  of \<^verbatim>\<open>Object.prototype\<close>: both handlers take it for a transport and call its
  \<^verbatim>\<open>handleRequest\<close>, which is not a function, so that an exception leaves the handler
  and no error response is written. The session map is unchanged.
\<close>

theorem prototype_key_not_rejected:
  "\<not> isInitRequest list_body \<and> transports mux_init ''constructor'' = None \<and>
   post_mcp sample_uuid True (Some ''constructor'') list_body mux_init =
     (\<lparr>headers = [], reply = Unhandled ''transport.handleRequest is not a function''\<rparr>, mux_init) \<and>
   handleSessionRequest False (Some ''constructor'') mux_init =
     (\<lparr>headers = [], reply = Unhandled ''transport.handleRequest is not a function''\<rparr>, mux_init)"
  by (simp add: not_isInitRequest_list_body post_mcp_def handleSessionRequest_def
      session_lookup_def obj_get_def object_prototype_keys_def mux_init_def)

section \<open>Closing a session\<close>

text \<open>
  Claim C8. When the transport of a session signals closure, \<^verbatim>\<open>onclose\<close> removes the
  mapping of the session id that the transport carries, and nothing else. The removal is
  idempotent: a second closure changes nothing, and a closure when the id is already
  unmapped changes nothing. In every state the server can reach, a registered transport
  carries the id it is registered under and no two transports carry the same session
  id: there is at most one pairing per session id.
\<close>

theorem close_removes_session:
  "(reachable m \<and> t < created m \<and> sessionId (transport_objs m t) = Some sid \<longrightarrow>
      onclose t m = m\<lparr>transports := (transports m)(sid := None)\<rparr> \<and>
      transports (onclose t m) sid = None) \<and>
   onclose t (onclose t m) = onclose t m \<and>
   (sessionId (transport_objs m t) = Some sid \<and> transports m sid = None \<longrightarrow> onclose t m = m) \<and>
   (reachable m \<longrightarrow>
      (\<forall>k p. transports m k = Some p \<longrightarrow> p < created m \<and> sessionId (transport_objs m p) = Some k) \<and>
      (\<forall>k p p'. p < created m \<and> p' < created m \<and>
         sessionId (transport_objs m p) = Some k \<and> sessionId (transport_objs m p') = Some k
         \<longrightarrow> p = p'))"
proof -
  have a: "reachable m \<and> t < created m \<and> sessionId (transport_objs m t) = Some sid \<longrightarrow>
      onclose t m = m\<lparr>transports := (transports m)(sid := None)\<rparr> \<and>
      transports (onclose t m) sid = None"
  proof (intro impI, elim conjE)
    assume r: "reachable m" and t: "t < created m"
      and sid: "sessionId (transport_objs m t) = Some sid"
    from r have "consistent m"
      by (rule reachable_consistent)
    with t sid have "length sid = 36"
      unfolding consistent_def by blast
    then have "sid \<noteq> []"
      by auto
    with sid show "onclose t m = m\<lparr>transports := (transports m)(sid := None)\<rparr> \<and>
      transports (onclose t m) sid = None"
      by (simp add: onclose_def)
  qed
  have c: "sessionId (transport_objs m t) = Some sid \<and> transports m sid = None \<longrightarrow> onclose t m = m"
  proof (intro impI, elim conjE)
    assume h: "sessionId (transport_objs m t) = Some sid" "transports m sid = None"
    then have "(transports m)(sid := None) = transports m"
      by (metis fun_upd_idem)
    then show "onclose t m = m"
      using h by (simp add: onclose_def)
  qed
  have d: "reachable m \<longrightarrow>
      (\<forall>k p. transports m k = Some p \<longrightarrow> p < created m \<and> sessionId (transport_objs m p) = Some k) \<and>
      (\<forall>k p p'. p < created m \<and> p' < created m \<and>
         sessionId (transport_objs m p) = Some k \<and> sessionId (transport_objs m p') = Some k
         \<longrightarrow> p = p')"
  proof
    assume "reachable m"
    then have "consistent m"
      by (rule reachable_consistent)
    then show "(\<forall>k p. transports m k = Some p \<longrightarrow> p < created m \<and> sessionId (transport_objs m p) = Some k) \<and>
      (\<forall>k p p'. p < created m \<and> p' < created m \<and>
         sessionId (transport_objs m p) = Some k \<and> sessionId (transport_objs m p') = Some k
         \<longrightarrow> p = p')"
      unfolding consistent_def by blast
  qed
  from a onclose_idem c d show ?thesis
    by blast
qed

text \<open>The session of the sample state is closed: its mapping is gone, and closing again
  changes nothing.\<close>

theorem close_removes_session_witness:
  "reachable mux_one \<and> 0 < created mux_one \<and>
   sessionId (transport_objs mux_one 0) = Some sample_uuid \<and>
   transports mux_one sample_uuid = Some 0 \<and>
   transports (onclose 0 mux_one) sample_uuid = None \<and>
   onclose 0 (onclose 0 mux_one) = onclose 0 mux_one"
proof -
  have h1: "sessionId (transport_objs mux_one 0) = Some sample_uuid"
    by (simp add: mux_one_eq)
  have h2: "0 < created mux_one"
    by (simp add: mux_one_eq)
  have h3: "transports mux_one sample_uuid = Some 0"
    by (simp add: mux_one_eq)
  show ?thesis
    using h1 h2 h3 reachable_mux_one
      close_removes_session [of mux_one 0 sample_uuid]
    by blast
qed

end
